theory Spec2Isabelle
  imports Complex_Main "HOL-Library.Word"
begin

chapter \<open>The program\<close>

section \<open>The demuxer descriptor (include/vlc\_demux.h)\<close>

subsection \<open>C strings and the libc functions the helpers call\<close>

text \<open>
  A C string is modelled by the bytes before its terminating NUL, as a \<open>string\<close>; a
  \<open>char *\<close> that may be NULL is a \<open>string option\<close>.

  \<open>strrchr\<close>, \<open>strcasecmp\<close> and \<open>strcmp\<close> belong to the C library, not to this repository.
  They are written here after their POSIX descriptions: \<open>strrchr s c\<close> points at the last
  occurrence of \<open>c\<close> in \<open>s\<close> (the result is the rest of the string from there on) or is
  NULL; \<open>strcasecmp\<close> compares byte by byte after \<open>tolower\<close> and only the sign of
  its result is specified, so the model returns -1, 0 or 1.  \<open>tolower\<close> is the one of the
  "C" locale.
\<close>

definition c_tolower :: "char \<Rightarrow> char" where
  "c_tolower c =
     (let n = (of_char c :: nat) in if 65 \<le> n \<and> n \<le> 90 then char_of (n + 32) else c)"

fun strrchr :: "string \<Rightarrow> char \<Rightarrow> string option" where
  "strrchr [] c = None"
| "strrchr (x # xs) c =
     (case strrchr xs c of
        Some r \<Rightarrow> Some r
      | None \<Rightarrow> if x = c then Some (x # xs) else None)"

fun strcasecmp :: "string \<Rightarrow> string \<Rightarrow> int" where
  "strcasecmp [] [] = 0"
| "strcasecmp [] (y # ys) = - 1"
| "strcasecmp (x # xs) [] = 1"
| "strcasecmp (x # xs) (y # ys) =
     (if c_tolower x = c_tolower y then strcasecmp xs ys
      else if (of_char (c_tolower x) :: nat) < of_char (c_tolower y) then - 1 else 1)"

fun strcmp :: "string \<Rightarrow> string \<Rightarrow> int" where
  "strcmp [] [] = 0"
| "strcmp [] (y # ys) = - 1"
| "strcmp (x # xs) [] = 1"
| "strcmp (x # xs) (y # ys) =
     (if x = y then strcmp xs ys
      else if (of_char x :: nat) < of_char y then - 1 else 1)"

subsection \<open>struct demux\_t\<close>

text \<open>
  The fields of \<open>struct demux_t\<close> that the code of this development reads.  \<open>stream\<close> is
  the field \<open>s\<close>, NULL when access and demux are one module.  \<open>info\<close> is the anonymous
  struct the demuxer keeps up to date: \<open>i_update\<close> is an \<open>unsigned int\<close>, \<open>i_title\<close> and
  \<open>i_seekpoint\<close> are \<open>int\<close>.
\<close>

record demux_info =
  i_update :: "32 word"
  i_title :: int
  i_seekpoint :: int

text \<open>
  Modelled from the spec: \<open>stream_t\<close> and \<open>stream_Peek\<close> come from \<open>vlc_stream.h\<close>, which is
  not among the sources.  The Stream Source offers "peek-ahead-N-bytes" and "peek must
  report how many bytes were actually available": a stream is the bytes that can be read
  now, and a peek of \<open>i_size\<close> bytes hands out the first \<open>i_size\<close> of them, or all of them when
  there are fewer, with their number.
\<close>

record stream_t =
  available :: "8 word list"

definition stream_Peek :: "stream_t \<Rightarrow> int \<Rightarrow> 8 word list \<times> int" where
  "stream_Peek st i_size =
     (let peek = take (nat i_size) (available st) in (peek, int (length peek)))"

record demux_t =
  psz_access :: "string option"
  psz_demux :: "string option"
  psz_path :: "string option"
  stream :: "stream_t option"
  info :: demux_info

text \<open>
  \<open>demux_IsPathExtension\<close> hands \<open>psz_path\<close> to \<open>strrchr\<close> without a test, so a NULL path is
  undefined behaviour: the model returns \<open>None\<close> there.  \<open>demux_IsForced\<close> tests
  \<open>psz_demux\<close> first.  In C a non-zero \<open>int\<close> is true.
\<close>

definition demux_IsPathExtension :: "demux_t \<Rightarrow> string \<Rightarrow> bool option" where
  "demux_IsPathExtension p_demux psz_extension =
     (case psz_path p_demux of
        None \<Rightarrow> None
      | Some path \<Rightarrow>
          (case strrchr path (CHR ''.'') of
             None \<Rightarrow> Some False
           | Some psz_ext \<Rightarrow>
               if strcasecmp psz_ext psz_extension \<noteq> 0 then Some False else Some True))"

definition demux_IsForced :: "demux_t \<Rightarrow> string \<Rightarrow> bool" where
  "demux_IsForced p_demux psz_name =
     (case psz_demux p_demux of
        None \<Rightarrow> False
      | Some d \<Rightarrow> if strcmp d psz_name \<noteq> 0 then False else True)"

subsection \<open>The macros that leave the enclosing function\<close>

text \<open>
  \<open>VLC_SUCCESS\<close> and \<open>VLC_EGENERIC\<close> are the two status codes the sources name; their
  numbers are defined elsewhere, so they are kept symbolic.  A macro of \<open>vlc_demux.h\<close>
  expands inside a function of a demux module: it either makes that function return a
  status, jumps to its \<open>error\<close> label, or falls through to the statement after it.  The
  messages it logs come first in the outcome.  An outcome of \<open>None\<close> is undefined
  behaviour (a NULL stream or path handed to a function that dereferences it).
\<close>

datatype vlc_status = VLC_SUCCESS | VLC_EGENERIC

datatype msg = msg_Dbg string | msg_Err string

datatype 'a flow = Return vlc_status | Goto_error | Fallthrough 'a

definition CHECK_PEEK :: "demux_t \<Rightarrow> int \<Rightarrow> (msg list \<times> 8 word list flow) option" where
  "CHECK_PEEK p_demux i_size =
     (case stream p_demux of
        None \<Rightarrow> None
      | Some st \<Rightarrow>
          (let (zepeek, n) = stream_Peek st i_size
           in if n < i_size then Some ([msg_Dbg ''not enough data''], Return VLC_EGENERIC)
              else Some ([], Fallthrough zepeek)))"

definition CHECK_PEEK_GOTO :: "demux_t \<Rightarrow> int \<Rightarrow> (msg list \<times> 8 word list flow) option" where
  "CHECK_PEEK_GOTO p_demux i_size =
     (case stream p_demux of
        None \<Rightarrow> None
      | Some st \<Rightarrow>
          (let (zepeek, n) = stream_Peek st i_size
           in if n < i_size then Some ([msg_Dbg ''not enough data''], Goto_error)
              else Some ([], Fallthrough zepeek)))"

text \<open>
  \<open>DEMUX_BY_EXTENSION\<close> gives up with \<open>VLC_EGENERIC\<close> when the path has another extension.
  \<open>LOAD_PACKETIZER_OR_FAIL\<close> gives up with an error message and \<open>VLC_EGENERIC\<close> when
  \<open>module_Need\<close>, whose result is the first argument here, finds no packetizer.
\<close>

definition DEMUX_BY_EXTENSION :: "demux_t \<Rightarrow> string \<Rightarrow> (msg list \<times> unit flow) option" where
  "DEMUX_BY_EXTENSION p_demux ext =
     (case demux_IsPathExtension p_demux ext of
        None \<Rightarrow> None
      | Some b \<Rightarrow> if \<not> b then Some ([], Return VLC_EGENERIC) else Some ([], Fallthrough ()))"

definition LOAD_PACKETIZER_OR_FAIL :: "'m option \<Rightarrow> string \<Rightarrow> msg list \<times> 'm flow" where
  "LOAD_PACKETIZER_OR_FAIL p_module msg =
     (case p_module of
        None \<Rightarrow> ([msg_Err (''cannot find packetizer for '' @ msg)], Return VLC_EGENERIC)
      | Some m \<Rightarrow> ([], Fallthrough m))"

text \<open>The status a macro makes the enclosing function return, if it does.\<close>

fun returned :: "'a flow \<Rightarrow> vlc_status option" where
  "returned (Return st) = Some st"
| "returned Goto_error = None"
| "returned (Fallthrough v) = None"

section \<open>The programme guide overlay (src/video\_output/video\_epg.c)\<close>

subsection \<open>C int and C float\<close>

text \<open>
  An \<open>int\<close> has 32 bits on the platforms of this program.  Signed arithmetic that leaves
  \<open>[INT_MIN, INT_MAX]\<close> is undefined behaviour in C: \<open>c_int\<close> is \<open>None\<close> there.
\<close>

definition INT_MIN :: int where
  "INT_MIN = - 2147483648"

definition INT_MAX :: int where
  "INT_MAX = 2147483647"

definition c_int :: "int \<Rightarrow> int option" where
  "c_int n = (if INT_MIN \<le> n \<and> n \<le> INT_MAX then Some n else None)"







text \<open>
  The rounding of IEEE 754 binary32, to nearest with ties to even, for the numbers of the
  normal range (24 bits of mantissa; underflow and overflow are left out).
  \<open>bit_length n\<close> is the number of binary digits of \<open>n\<close>, and \<open>float_exponent x\<close> is the
  \<open>e\<close> with \<open>2 ^ e \<le> |x| < 2 ^ (e + 1)\<close>.
\<close>

function bit_length :: "int \<Rightarrow> nat" where
  "bit_length n = (if n \<le> 0 then 0 else Suc (bit_length (n div 2)))"
  by pat_completeness auto
termination
  by (relation "measure nat") auto

declare bit_length.simps [simp del]

definition float_exponent :: "real \<Rightarrow> int" where
  "float_exponent x =
     (if 1 \<le> \<bar>x\<bar> then int (bit_length \<lfloor>\<bar>x\<bar>\<rfloor>) - 1
      else - int (bit_length (\<lceil>1 / \<bar>x\<bar>\<rceil> - 1)))"

definition round_half_even :: "real \<Rightarrow> int" where
  "round_half_even m =
     (let f = \<lfloor>m\<rfloor>
      in if m - real_of_int f < 1 / 2 then f
         else if 1 / 2 < m - real_of_int f then f + 1
         else if even f then f else f + 1)"

definition pow2 :: "int \<Rightarrow> real" where
  "pow2 e = (if 0 \<le> e then 2 ^ nat e else 1 / 2 ^ nat (- e))"

definition round_binary32 :: "real \<Rightarrow> real" where
  "round_binary32 x =
     (if x = 0 then 0
      else (let ulp = pow2 (float_exponent x - 23)
            in sgn x * real_of_int (round_half_even (\<bar>x\<bar> / ulp)) * ulp))"





subsection \<open>Formats, pictures and regions\<close>

text \<open>
  The fields of \<open>video_format_t\<close>, \<open>picture_t\<close> and \<open>subpicture_region_t\<close> that
  \<open>vout_OSDEpgSlider\<close> touches.  \<open>p_pixels\<close> and \<open>i_pitch\<close> are those of the first plane
  (\<open>picture->p\<close>); the pixel memory is a store from the byte offset after \<open>p_pixels\<close> to the
  \<open>uint8_t\<close> kept there, since the C code indexes it without any bound.
\<close>

datatype vlc_fourcc = VLC_CODEC_YUVP | VLC_CODEC_TEXT



record picture_t =
  p_pixels :: "int \<Rightarrow> 8 word"
  i_pitch :: int


subsection \<open>vout\_OSDEpgSlider\<close>


text \<open>
  The value stored at column \<open>i\<close> of line \<open>j\<close>: \<open>2 * is_border + is_outline\<close>.  It is
  computed inside the loops only, where \<open>0 \<le> j < height\<close> and \<open>0 \<le> i < width\<close>, so that
  \<open>height - 1\<close>, \<open>height - 4\<close>, \<open>width - 1\<close> and \<open>width - 4\<close> stay within \<open>int\<close>.
\<close>

definition slider_pixel :: "int \<Rightarrow> int \<Rightarrow> int \<Rightarrow> int \<Rightarrow> int \<Rightarrow> 8 word" where
  "slider_pixel width height filled_part_width j i =
     (let is_outline = (j = 0 \<or> j = height - 1 \<or> i = 0 \<or> i = width - 1);
          is_border = (j < 3 \<or> j > height - 4 \<or> i < 3 \<or> i > width - 4 \<or>
                       i < filled_part_width)
      in of_int (2 * of_bool is_border + of_bool is_outline))"

text \<open>
  The index \<open>picture->p->i_pitch * j + i\<close> is \<open>int\<close> arithmetic: the product, then the sum,
  each undefined once it leaves \<open>int\<close>.
\<close>

definition pixel_offset :: "int \<Rightarrow> int \<Rightarrow> int \<Rightarrow> int option" where
  "pixel_offset pitch j i =
     (case c_int (pitch * j) of
        None \<Rightarrow> None
      | Some m \<Rightarrow> c_int (m + i))"

text \<open>
  The inner loop, over the columns \<open>i, i + 1, ..., width - 1\<close> of line \<open>j\<close>; \<open>None\<close> when an
  index is undefined.  \<open>i + 1\<close> cannot overflow, since \<open>i < width\<close>.
\<close>

function slider_row ::
  "picture_t \<Rightarrow> int \<Rightarrow> int \<Rightarrow> int \<Rightarrow> int \<Rightarrow> int \<Rightarrow> picture_t option" where
  "slider_row picture width height filled_part_width j i =
     (if i < width
      then (case pixel_offset (i_pitch picture) j i of
              None \<Rightarrow> None
            | Some k \<Rightarrow>
                slider_row
                  (picture\<lparr>p_pixels := (p_pixels picture)
                     (k := slider_pixel width height filled_part_width j i)\<rparr>)
                  width height filled_part_width j (i + 1))
      else Some picture)"
  by pat_completeness auto
termination
  by (relation "measure (\<lambda>(picture, width, height, filled_part_width, j, i). nat (width - i))")
    auto

text \<open>The outer loop, over the lines \<open>j, j + 1, ..., height - 1\<close>.\<close>

function slider_rows ::
  "picture_t \<Rightarrow> int \<Rightarrow> int \<Rightarrow> int \<Rightarrow> int \<Rightarrow> picture_t option" where
  "slider_rows picture width height filled_part_width j =
     (if j < height
      then (case slider_row picture width height filled_part_width j 0 of
              None \<Rightarrow> None
            | Some picture \<Rightarrow> slider_rows picture width height filled_part_width (j + 1))
      else Some picture)"
  by pat_completeness auto
termination
  by (relation "measure (\<lambda>(picture, width, height, filled_part_width, j). nat (height - j))")
    auto

declare slider_row.simps [simp del] slider_rows.simps [simp del]


subsection \<open>vout\_OSDEpg: objects, the lock and the order of events\<close>

text \<open>
  \<open>vout_OSDEpg\<close> works on objects that other threads share, so the objects live in a
  store and every step is recorded.  An address is the number of an object; a pointer is
  an \<open>addr option\<close>, \<open>None\<close> for NULL.
\<close>

type_synonym addr = nat

text \<open>
  Modelled from the spec: \<open>vlc_epg_t\<close>, \<open>vlc_epg_event_t\<close> and \<open>input_item_t\<close> come from
  \<open>vlc_epg.h\<close> and \<open>vlc_input_item.h\<close>, which are not among the sources.  The spec describes
  the snapshot as "a program-guide table (channel name, optionally a current event with
  start time, duration, name)"; the records hold those fields and the ones
  \<open>video_epg.c\<close> reads (\<open>i_id\<close>, \<open>i_source_id\<close>, the events of a table, \<open>i_epg_time\<close>).  An
  event owns its name; the name of a table is a string object of its own.
\<close>

record vlc_epg_event_t =
  event_i_start :: int
  event_i_duration :: int
  event_psz_name :: "string option"

record vlc_epg_t =
  epg_psz_name :: "addr option"
  epg_i_id :: int
  epg_i_source_id :: int
  epg_pp_event :: "addr list"
  epg_p_current :: "addr option"

datatype obj = Str string | Event vlc_epg_event_t | Epg vlc_epg_t | Freed

record input_item_t =
  p_epg_table :: "addr option"
  i_epg_time :: int

text \<open>
  The events of a trace: taking and releasing \<open>input->lock\<close>, reading a field of the input
  item, reading or writing the object at an address, the call of \<open>input_item_GetMeta\<close>
  (which takes the lock itself), \<open>subpicture_New\<close> and \<open>vout_PutSubpicture\<close>.
\<close>

datatype ev = Lock | Unlock | Read_item | Access addr | Get_meta | Subpicture_New | Put_subpicture

record world =
  heap :: "addr \<Rightarrow> obj"
  brk :: addr
  trace :: "ev list"

definition emit :: "ev \<Rightarrow> world \<Rightarrow> world" where
  "emit e w = w\<lparr>trace := trace w @ [e]\<rparr>"

definition alloc :: "obj \<Rightarrow> world \<Rightarrow> addr \<times> world" where
  "alloc ob w = (brk w, w\<lparr>heap := (heap w)(brk w := ob), brk := Suc (brk w)\<rparr>)"

definition load :: "addr \<Rightarrow> world \<Rightarrow> (obj \<times> world) option" where
  "load a w =
     (if a < brk w \<and> heap w a \<noteq> Freed then Some (heap w a, emit (Access a) w) else None)"

definition store :: "addr \<Rightarrow> obj \<Rightarrow> world \<Rightarrow> world" where
  "store a ob w = emit (Access a) (w\<lparr>heap := (heap w)(a := ob)\<rparr>)"

definition dispose :: "addr \<Rightarrow> world \<Rightarrow> world" where
  "dispose a w = store a Freed w"

text \<open>
  What the call cannot know beforehand: which allocations succeed, the title that
  \<open>input_item_GetMeta\<close> finds, and the clock.
\<close>

record env =
  epg_New_ok :: bool
  event_Duplicate_ok :: bool
  epg_AddEvent_ok :: bool
  strdup_ok :: bool
  meta_Title :: "string option"
  malloc_ok :: bool
  subpicture_New_ok :: bool
  mdate :: int

text \<open>
  Modelled from the spec: the functions of \<open>vlc_epg.h\<close> (\<open>vlc_epg_New\<close>,
  \<open>vlc_epg_event_Duplicate\<close>, \<open>vlc_epg_AddEvent\<close>, \<open>vlc_epg_SetCurrent\<close>, \<open>vlc_epg_Delete\<close>,
  \<open>vlc_epg_event_Delete\<close>), \<open>strdup\<close>, \<open>input_item_GetMeta\<close> and \<open>subpicture_New\<close> are not among
  the sources.  Each is the allocation its name says, failing when \<open>env\<close> says so:
  "duplicate" makes a new object with the contents of the old one, \<open>AddEvent\<close> appends the
  event to the table's events, \<open>SetCurrent\<close> makes current the event that starts at the
  given time (none for a negative time), \<open>Delete\<close> frees the table with its events and name.
\<close>

definition vlc_epg_New :: "env \<Rightarrow> int \<Rightarrow> int \<Rightarrow> world \<Rightarrow> addr option \<times> world" where
  "vlc_epg_New env i_id i_source_id w =
     (if epg_New_ok env
      then (let (a, w) = alloc (Epg \<lparr>epg_psz_name = None, epg_i_id = i_id,
                                      epg_i_source_id = i_source_id, epg_pp_event = [],
                                      epg_p_current = None\<rparr>) w
            in (Some a, w))
      else (None, w))"

definition vlc_epg_event_Duplicate :: "env \<Rightarrow> addr \<Rightarrow> world \<Rightarrow> (addr option \<times> world) option" where
  "vlc_epg_event_Duplicate env p_src w =
     (case load p_src w of
        Some (Event e, w) \<Rightarrow>
          if event_Duplicate_ok env
          then (let (a, w) = alloc (Event e) w in Some (Some a, w))
          else Some (None, w)
      | _ \<Rightarrow> None)"

definition vlc_epg_AddEvent :: "env \<Rightarrow> addr \<Rightarrow> addr \<Rightarrow> world \<Rightarrow> (bool \<times> world) option" where
  "vlc_epg_AddEvent env p_epg p_evt w =
     (case load p_epg w of
        Some (Epg g, w) \<Rightarrow>
          if epg_AddEvent_ok env
          then Some (True, store p_epg (Epg (g\<lparr>epg_pp_event := epg_pp_event g @ [p_evt]\<rparr>)) w)
          else Some (False, w)
      | _ \<Rightarrow> None)"

fun find_event :: "addr list \<Rightarrow> int \<Rightarrow> world \<Rightarrow> (addr option \<times> world) option" where
  "find_event [] i_start w = Some (None, w)"
| "find_event (p # ps) i_start w =
     (case load p w of
        Some (Event e, w) \<Rightarrow>
          if event_i_start e = i_start then Some (Some p, w) else find_event ps i_start w
      | _ \<Rightarrow> None)"

definition vlc_epg_SetCurrent :: "addr \<Rightarrow> int \<Rightarrow> world \<Rightarrow> world option" where
  "vlc_epg_SetCurrent p_epg i_start w =
     (case load p_epg w of
        Some (Epg g, w) \<Rightarrow>
          (let w = store p_epg (Epg (g\<lparr>epg_p_current := None\<rparr>)) w
           in if i_start < 0 then Some w
              else (case find_event (epg_pp_event g) i_start w of
                      Some (Some p, w) \<Rightarrow> Some (store p_epg (Epg (g\<lparr>epg_p_current := Some p\<rparr>)) w)
                    | Some (None, w) \<Rightarrow> Some w
                    | None \<Rightarrow> None))
      | _ \<Rightarrow> None)"

definition vlc_epg_event_Delete :: "addr \<Rightarrow> world \<Rightarrow> world" where
  "vlc_epg_event_Delete p_evt w = dispose p_evt w"

definition vlc_epg_Delete :: "addr \<Rightarrow> world \<Rightarrow> world option" where
  "vlc_epg_Delete p_epg w =
     (case load p_epg w of
        Some (Epg g, w) \<Rightarrow>
          (let w = fold vlc_epg_event_Delete (epg_pp_event g) w;
               w = (case epg_psz_name g of None \<Rightarrow> w | Some n \<Rightarrow> dispose n w)
           in Some (dispose p_epg w))
      | _ \<Rightarrow> None)"

definition strdup :: "env \<Rightarrow> addr \<Rightarrow> world \<Rightarrow> (addr option \<times> world) option" where
  "strdup env p_str w =
     (case load p_str w of
        Some (Str s, w) \<Rightarrow>
          if strdup_ok env then (let (a, w) = alloc (Str s) w in Some (Some a, w))
          else Some (None, w)
      | _ \<Rightarrow> None)"

definition input_item_GetMeta :: "env \<Rightarrow> world \<Rightarrow> addr option \<times> world" where
  "input_item_GetMeta env w =
     (let w = emit Get_meta w
      in case meta_Title env of
           None \<Rightarrow> (None, w)
         | Some s \<Rightarrow> (let (a, w) = alloc (Str s) w in (Some a, w)))"


datatype spu_channel = SPU_DEFAULT_CHANNEL

record subpicture_updater_sys_t =
  sys_epg :: addr
  sys_time :: int

record subpicture_t =
  i_channel :: "spu_channel option"
  i_start :: int
  i_stop :: int
  b_ephemer :: bool
  b_absolute :: bool
  b_fade :: bool
  updater_p_sys :: subpicture_updater_sys_t

definition subpicture_New :: "env \<Rightarrow> subpicture_updater_sys_t \<Rightarrow> world \<Rightarrow> subpicture_t option \<times> world" where
  "subpicture_New env sys w =
     (let w = emit Subpicture_New w
      in if subpicture_New_ok env
         then (Some \<lparr>i_channel = None, i_start = 0, i_stop = 0, b_ephemer = False,
                      b_absolute = False, b_fade = False, updater_p_sys = sys\<rparr>, w)
         else (None, w))"

text \<open>The block \<open>if( p_current_event ) { ... }\<close>, run with the lock held.\<close>

definition OSDEpg_current :: "env \<Rightarrow> addr \<Rightarrow> addr option \<Rightarrow> world \<Rightarrow> (addr option \<times> world) option" where
  "OSDEpg_current env epg p_current_event w =
     (case p_current_event of
        None \<Rightarrow> Some (Some epg, w)
      | Some c \<Rightarrow>
          (case vlc_epg_event_Duplicate env c w of
             None \<Rightarrow> None
           | Some (None, w) \<Rightarrow> Some (Some epg, w)
           | Some (Some p_event, w) \<Rightarrow>
               (case vlc_epg_AddEvent env epg p_event w of
                  None \<Rightarrow> None
                | Some (False, w) \<Rightarrow>
                    (case vlc_epg_Delete epg w of
                       None \<Rightarrow> None
                     | Some w \<Rightarrow> Some (None, vlc_epg_event_Delete p_event w))
                | Some (True, w) \<Rightarrow>
                    (case load p_event w of
                       Some (Event e, w) \<Rightarrow>
                         (case vlc_epg_SetCurrent epg (event_i_start e) w of
                            None \<Rightarrow> None
                          | Some w \<Rightarrow> Some (Some epg, w))
                     | _ \<Rightarrow> None))))"

text \<open>The block \<open>if ( tmp ) { ... }\<close>, run with the lock held.\<close>

definition OSDEpg_table :: "env \<Rightarrow> addr \<Rightarrow> world \<Rightarrow> (addr option \<times> world) option" where
  "OSDEpg_table env tmp w =
     (case load tmp w of
        Some (Epg t, w) \<Rightarrow>
          (let p_current_event = epg_p_current t;
               (epg, w) = vlc_epg_New env (epg_i_id t) (epg_i_source_id t) w
           in case epg of
                None \<Rightarrow> Some (None, w)
              | Some e \<Rightarrow>
                  (case OSDEpg_current env e p_current_event w of
                     None \<Rightarrow> None
                   | Some (None, w) \<Rightarrow> Some (None, w)
                   | Some (Some e, w) \<Rightarrow>
                       (case epg_psz_name t of
                          None \<Rightarrow> Some (Some e, w)
                        | Some n \<Rightarrow>
                            (case strdup env n w of
                               None \<Rightarrow> None
                             | Some (name, w) \<Rightarrow>
                                 (case load e w of
                                    Some (Epg g, w) \<Rightarrow>
                                      Some (Some e, store e (Epg (g\<lparr>epg_psz_name := name\<rparr>)) w)
                                  | _ \<Rightarrow> None)))))
      | _ \<Rightarrow> None)"

definition vout_OSDEpg ::
  "env \<Rightarrow> input_item_t \<Rightarrow> world \<Rightarrow> ((vlc_status \<times> subpicture_t option) \<times> world) option" where
  "vout_OSDEpg env input w =
     (let w = emit Lock w;
          w = emit Read_item w;
          tmp = p_epg_table input
      in case (case tmp of None \<Rightarrow> Some (None, w) | Some t \<Rightarrow> OSDEpg_table env t w) of
           None \<Rightarrow> None
         | Some (epg, w) \<Rightarrow>
             (let w = emit Read_item w;
                  epg_time = i_epg_time input;
                  w = emit Unlock w
              in case epg of
                   None \<Rightarrow> Some ((VLC_EGENERIC, None), w)
                 | Some e \<Rightarrow>
                     (case load e w of
                        Some (Epg g, w) \<Rightarrow>
                          (let w = (if epg_psz_name g = None
                                    then (let (title, w) = input_item_GetMeta env w
                                          in store e (Epg (g\<lparr>epg_psz_name := title\<rparr>)) w)
                                    else w)
                           in if \<not> malloc_ok env
                              then map_option (Pair (VLC_EGENERIC, None)) (vlc_epg_Delete e w)
                              else
                                (let sys = \<lparr>sys_epg = e, sys_time = epg_time\<rparr>;
                                     now = mdate env;
                                     (subpic, w) = subpicture_New env sys w
                                 in case subpic of
                                      None \<Rightarrow>
                                        map_option (Pair (VLC_EGENERIC, None))
                                          (vlc_epg_Delete (sys_epg sys) w)
                                    | Some subpic \<Rightarrow>
                                        (let subpic = subpic
                                               \<lparr>i_channel := Some SPU_DEFAULT_CHANNEL,
                                                i_start := now,
                                                i_stop := now + 3000 * 1000,
                                                b_ephemer := True,
                                                b_absolute := True,
                                                b_fade := True\<rparr>;
                                             w = emit Put_subpicture w
                                         in Some ((VLC_SUCCESS, Some subpic), w))))
                      | _ \<Rightarrow> None)))"


text \<open>
  The lock discipline, read off a trace.  \<open>n\<close> is the number of objects that existed before
  the call: the objects below \<open>n\<close> belong to the input item.
\<close>

fun well_locked :: "addr \<Rightarrow> bool \<Rightarrow> ev list \<Rightarrow> bool" where
  "well_locked n held [] = (\<not> held)"
| "well_locked n held (Lock # t) = (\<not> held \<and> well_locked n True t)"
| "well_locked n held (Unlock # t) = (held \<and> well_locked n False t)"
| "well_locked n held (Read_item # t) = (held \<and> well_locked n held t)"
| "well_locked n held (Access a # t) = ((held \<or> n \<le> a) \<and> well_locked n held t)"
| "well_locked n held (Get_meta # t) = (\<not> held \<and> well_locked n held t)"
| "well_locked n held (Subpicture_New # t) = (\<not> held \<and> well_locked n held t)"
| "well_locked n held (Put_subpicture # t) = (\<not> held \<and> well_locked n held t)"

definition is_Str :: "world \<Rightarrow> addr \<Rightarrow> bool" where
  "is_Str w a = (a < brk w \<and> (case heap w a of Str s \<Rightarrow> True | _ \<Rightarrow> False))"

definition is_Event :: "world \<Rightarrow> addr \<Rightarrow> bool" where
  "is_Event w a = (a < brk w \<and> (case heap w a of Event e \<Rightarrow> True | _ \<Rightarrow> False))"

definition wf_item :: "world \<Rightarrow> input_item_t \<Rightarrow> bool" where
  "wf_item w input =
     (case p_epg_table input of
        None \<Rightarrow> True
      | Some tbl \<Rightarrow>
          tbl < brk w \<and>
          (case heap w tbl of
             Epg t \<Rightarrow>
               (case epg_p_current t of None \<Rightarrow> True | Some c \<Rightarrow> is_Event w c) \<and>
               (case epg_psz_name t of None \<Rightarrow> True | Some n \<Rightarrow> is_Str w n)
           | _ \<Rightarrow> False))"


text \<open>
  What the input item holds when the call begins: its guide table, the current event of
  the table with its address, and the name of the table with its address.
\<close>

definition table_of :: "world \<Rightarrow> input_item_t \<Rightarrow> vlc_epg_t option" where
  "table_of w input =
     (case p_epg_table input of
        None \<Rightarrow> None
      | Some tbl \<Rightarrow> (case heap w tbl of Epg t \<Rightarrow> Some t | _ \<Rightarrow> None))"

definition current_of :: "world \<Rightarrow> input_item_t \<Rightarrow> (addr \<times> vlc_epg_event_t) option" where
  "current_of w input =
     (case table_of w input of
        None \<Rightarrow> None
      | Some t \<Rightarrow>
          (case epg_p_current t of
             None \<Rightarrow> None
           | Some c \<Rightarrow> (case heap w c of Event e \<Rightarrow> Some (c, e) | _ \<Rightarrow> None)))"

definition name_of :: "world \<Rightarrow> input_item_t \<Rightarrow> (addr \<times> string) option" where
  "name_of w input =
     (case table_of w input of
        None \<Rightarrow> None
      | Some t \<Rightarrow>
          (case epg_psz_name t of
             None \<Rightarrow> None
           | Some n \<Rightarrow> (case heap w n of Str s \<Rightarrow> Some (n, s) | _ \<Rightarrow> None)))"

text \<open>
  When the call must succeed.  The guide outlives the locked part when there is a table,
  \<open>vlc_epg_New\<close> succeeds and the duplicate of the current event, if one was made, could be
  added; the call succeeds when moreover \<open>malloc\<close> and \<open>subpicture_New\<close> do.
\<close>

definition guide_kept :: "env \<Rightarrow> world \<Rightarrow> input_item_t \<Rightarrow> bool" where
  "guide_kept env w input =
     (table_of w input \<noteq> None \<and> epg_New_ok env \<and>
      (current_of w input = None \<or> \<not> event_Duplicate_ok env \<or> epg_AddEvent_ok env))"

definition OSDEpg_succeeds :: "env \<Rightarrow> world \<Rightarrow> input_item_t \<Rightarrow> bool" where
  "OSDEpg_succeeds env w input =
     (guide_kept env w input \<and> malloc_ok env \<and> subpicture_New_ok env)"

text \<open>
  What the guide of the subpicture must hold: the duplicate of the table's current event
  whenever there is one and \<open>vlc_epg_event_Duplicate\<close> succeeds, and as name the copy of
  the table's name or, without one, the item's title.
\<close>

definition event_copied :: "env \<Rightarrow> world \<Rightarrow> input_item_t \<Rightarrow> vlc_epg_event_t option" where
  "event_copied env w input =
     (case current_of w input of
        None \<Rightarrow> None
      | Some (c, e) \<Rightarrow> if event_Duplicate_ok env then Some e else None)"

definition name_expected :: "env \<Rightarrow> world \<Rightarrow> input_item_t \<Rightarrow> string option" where
  "name_expected env w input =
     (case name_of w input of
        None \<Rightarrow> meta_Title env
      | Some (n, s) \<Rightarrow> if strdup_ok env then Some s else meta_Title env)"

text \<open>
  What the claim asks of the subpicture handed to the video output.  Its guide is a new
  object with the identifiers of the table.  When the table's current event was
  duplicated, the guide has exactly one event, a new object that holds what the table's
  current event held when the call began, and that event is the guide's current one
  (unless it starts at a negative time, which \<open>vlc_epg_SetCurrent\<close> refuses); otherwise the
  guide has no event.  Its name is a new string object.  Its time is the item's, and its
  display fields are those \<open>vout_OSDEpg\<close> sets.
\<close>

definition snapshot ::
  "env \<Rightarrow> world \<Rightarrow> input_item_t \<Rightarrow> world \<Rightarrow> subpicture_t \<Rightarrow> bool" where
  "snapshot env w input w' subpic =
     (let e = sys_epg (updater_p_sys subpic)
      in brk w \<le> e \<and> e < brk w' \<and>
         sys_time (updater_p_sys subpic) = i_epg_time input \<and>
         i_channel subpic = Some SPU_DEFAULT_CHANNEL \<and>
         i_start subpic = mdate env \<and> i_stop subpic = mdate env + 3000000 \<and>
         b_ephemer subpic \<and> b_absolute subpic \<and> b_fade subpic \<and>
         (case (heap w' e, table_of w input) of
            (Epg g, Some t) \<Rightarrow>
              epg_i_id g = epg_i_id t \<and> epg_i_source_id g = epg_i_source_id t \<and>
              (case event_copied env w input of
                 None \<Rightarrow> epg_pp_event g = [] \<and> epg_p_current g = None
               | Some ev \<Rightarrow>
                   (case epg_pp_event g of
                      [d] \<Rightarrow>
                        brk w \<le> d \<and> d < brk w' \<and> heap w' d = Event ev \<and>
                        epg_p_current g = (if 0 \<le> event_i_start ev then Some d else None)
                    | _ \<Rightarrow> False)) \<and>
              (case name_expected env w input of
                 None \<Rightarrow> epg_psz_name g = None
               | Some s \<Rightarrow>
                   (case epg_psz_name g of
                      None \<Rightarrow> False
                    | Some a \<Rightarrow> brk w \<le> a \<and> a < brk w' \<and> heap w' a = Str s))
          | _ \<Rightarrow> False))"

text \<open>
  What the claim asks of the trace \<open>t\<close> of the call.  It begins with \<open>Lock\<close> and contains
  \<open>Unlock\<close>.  Up to \<open>Unlock\<close> there are, after \<open>Lock\<close>, only reads of the item and accesses
  to objects, among them the read of the item's table pointer, of the table, of the
  table's current event (once \<open>vlc_epg_New\<close> has succeeded: this is the read that
  \<open>vlc_epg_event_Duplicate\<close> makes) and of the table's name (when the guide is kept).  After
  \<open>Unlock\<close> there are only accesses to new objects, \<open>input_item_GetMeta\<close>, \<open>subpicture_New\<close>
  and \<open>vout_PutSubpicture\<close>; \<open>subpicture_New\<close> is called exactly when the guide is kept and
  \<open>malloc\<close> succeeds, \<open>vout_PutSubpicture\<close> exactly when the call succeeds.
\<close>

definition before_unlock :: "ev list \<Rightarrow> ev list" where
  "before_unlock t = takeWhile (\<lambda>e. e \<noteq> Unlock) t"

definition after_unlock :: "ev list \<Rightarrow> ev list" where
  "after_unlock t = drop 1 (dropWhile (\<lambda>e. e \<noteq> Unlock) t)"

fun locked_event :: "ev \<Rightarrow> bool" where
  "locked_event Read_item = True"
| "locked_event (Access a) = True"
| "locked_event e = False"

fun unlocked_event :: "addr \<Rightarrow> ev \<Rightarrow> bool" where
  "unlocked_event n (Access a) = (n \<le> a)"
| "unlocked_event n Get_meta = True"
| "unlocked_event n Subpicture_New = True"
| "unlocked_event n Put_subpicture = True"
| "unlocked_event n e = False"

definition trace_post :: "env \<Rightarrow> world \<Rightarrow> input_item_t \<Rightarrow> ev list \<Rightarrow> bool" where
  "trace_post env w input t =
     (take 1 t = [Lock] \<and> Unlock \<in> set t \<and>
      list_all locked_event (drop 1 (before_unlock t)) \<and>
      list_all (unlocked_event (brk w)) (after_unlock t) \<and>
      Read_item \<in> set (before_unlock t) \<and>
      (case p_epg_table input of
         None \<Rightarrow> True
       | Some tbl \<Rightarrow> Access tbl \<in> set (before_unlock t)) \<and>
      (case current_of w input of
         None \<Rightarrow> True
       | Some (c, e) \<Rightarrow> if epg_New_ok env then Access c \<in> set (before_unlock t) else True) \<and>
      (case name_of w input of
         None \<Rightarrow> True
       | Some (n, s) \<Rightarrow>
           if guide_kept env w input then Access n \<in> set (before_unlock t) else True) \<and>
      (Subpicture_New \<in> set (after_unlock t)
         \<longleftrightarrow> guide_kept env w input \<and> malloc_ok env) \<and>
      (Put_subpicture \<in> set (after_unlock t) \<longleftrightarrow> OSDEpg_succeeds env w input))"

text \<open>
  The whole of it: the trace, the objects that existed before (left as they were), and
  the result, a success with the snapshot exactly when the call must succeed.
\<close>

definition OSDEpg_post ::
  "env \<Rightarrow> world \<Rightarrow> input_item_t \<Rightarrow> (vlc_status \<times> subpicture_t option) \<times> world \<Rightarrow> bool" where
  "OSDEpg_post env w input res =
     (case res of
        ((st, subpic), w') \<Rightarrow>
          (\<exists>t. trace w' = trace w @ t \<and> well_locked (brk w) False t \<and>
               trace_post env w input t) \<and>
          brk w \<le> brk w' \<and>
          (\<forall>a. a < brk w \<longrightarrow> heap w' a = heap w a) \<and>
          (if OSDEpg_succeeds env w input
           then st = VLC_SUCCESS \<and>
                (case subpic of None \<Rightarrow> False | Some sp \<Rightarrow> snapshot env w input w' sp)
           else st = VLC_EGENERIC \<and> subpic = None))"

section \<open>The title queries of the control protocol\<close>

text \<open>
  \<open>enum demux_query_e\<close> names the queries; the three about titles are
  \<open>DEMUX_GET_TITLE_INFO\<close>, \<open>DEMUX_SET_TITLE\<close> and \<open>DEMUX_SET_SEEKPOINT\<close>, the last two with
  an \<open>int\<close> argument.
\<close>

datatype title_query = DEMUX_GET_TITLE_INFO | DEMUX_SET_TITLE int | DEMUX_SET_SEEKPOINT int

text \<open>
  Modelled from the spec: the \<open>pf_control\<close> functions of the demux modules, which answer
  these queries, are not among the sources.  The spec gives a demuxer "zero or more
  titles, each with zero or more seekpoints"; \<open>Get title info\<close> "fails when \<open>\<le>\<close>1 title and
  \<open>\<le>\<close>1 seekpoint exist everywhere" and otherwise hands out the titles; \<open>Set title\<close> and
  \<open>Set seekpoint\<close> are "only valid after a successful title-info query" and "must reject
  out-of-range index", failing "without side effects".  The content is the list of the
  titles' seekpoint counts; \<open>last_info\<close> is the answer of the last successful
  \<open>Get title info\<close>; the navigation state is the \<open>info\<close> of the \<open>demux_t\<close>.
\<close>

record title_demux =
  demux :: demux_t
  titles :: "nat list"
  last_info :: "nat list option"

definition set_i_title :: "int \<Rightarrow> title_demux \<Rightarrow> title_demux" where
  "set_i_title i d = d\<lparr>demux := (demux d)\<lparr>info := (info (demux d))\<lparr>i_title := i\<rparr>\<rparr>\<rparr>"

definition set_i_seekpoint :: "int \<Rightarrow> title_demux \<Rightarrow> title_demux" where
  "set_i_seekpoint i d = d\<lparr>demux := (demux d)\<lparr>info := (info (demux d))\<lparr>i_seekpoint := i\<rparr>\<rparr>\<rparr>"

definition control_title ::
  "title_demux \<Rightarrow> title_query \<Rightarrow> (vlc_status \<times> nat list option) \<times> title_demux" where
  "control_title d q =
     (case q of
        DEMUX_GET_TITLE_INFO \<Rightarrow>
          if length (titles d) \<le> 1 \<and> list_all (\<lambda>n. n \<le> 1) (titles d)
          then ((VLC_EGENERIC, None), d)
          else ((VLC_SUCCESS, Some (titles d)), d\<lparr>last_info := Some (titles d)\<rparr>)
      | DEMUX_SET_TITLE i \<Rightarrow>
          (case last_info d of
             None \<Rightarrow> ((VLC_EGENERIC, None), d)
           | Some ts \<Rightarrow>
               if 0 \<le> i \<and> i < int (length ts)
               then ((VLC_SUCCESS, None), set_i_title i d)
               else ((VLC_EGENERIC, None), d))
      | DEMUX_SET_SEEKPOINT i \<Rightarrow>
          (case last_info d of
             None \<Rightarrow> ((VLC_EGENERIC, None), d)
           | Some ts \<Rightarrow>
               (let t = i_title (info (demux d))
                in if 0 \<le> t \<and> t < int (length ts) \<and> 0 \<le> i \<and> i < int (ts ! nat t)
                   then ((VLC_SUCCESS, None), set_i_seekpoint i d)
                   else ((VLC_EGENERIC, None), d))))"

chapter \<open>Properties\<close>

section \<open>The path helpers\<close>

lemma strrchr_None_iff: "strrchr s c = None \<longleftrightarrow> c \<notin> set s"
  by (induction s) (auto split: option.splits)

lemma strrchr_Some_iff:
  "strrchr s c = Some r \<longleftrightarrow> (\<exists>pre rest. s = pre @ c # rest \<and> c \<notin> set rest \<and> r = c # rest)"
proof (induction s arbitrary: r)
  case Nil
  then show ?case by simp
next
  case (Cons x xs)
  show ?case
  proof (cases "strrchr xs c")
    case None
    then have notin: "c \<notin> set xs" by (simp add: strrchr_None_iff)
    show ?thesis
    proof
      assume "strrchr (x # xs) c = Some r"
      with None have "x = c" "r = x # xs" by (auto split: if_splits)
      with notin have "x # xs = [] @ c # xs \<and> c \<notin> set xs \<and> r = c # xs" by simp
      then show "\<exists>pre rest. x # xs = pre @ c # rest \<and> c \<notin> set rest \<and> r = c # rest" by blast
    next
      assume "\<exists>pre rest. x # xs = pre @ c # rest \<and> c \<notin> set rest \<and> r = c # rest"
      then obtain pre rest where e: "x # xs = pre @ c # rest" "c \<notin> set rest" "r = c # rest"
        by blast
      from e(1) notin have "pre = []" by (cases pre) auto
      with e None show "strrchr (x # xs) c = Some r" by simp
    qed
  next
    case (Some q)
    with Cons.IH [of q] obtain p0 r0 where q: "xs = p0 @ c # r0" "c \<notin> set r0" "q = c # r0"
      by blast
    show ?thesis
    proof
      assume "strrchr (x # xs) c = Some r"
      with Some have "r = q" by simp
      with q have "x # xs = (x # p0) @ c # r0 \<and> c \<notin> set r0 \<and> r = c # r0" by simp
      then show "\<exists>pre rest. x # xs = pre @ c # rest \<and> c \<notin> set rest \<and> r = c # rest" by blast
    next
      assume "\<exists>pre rest. x # xs = pre @ c # rest \<and> c \<notin> set rest \<and> r = c # rest"
      then obtain pre rest where e: "x # xs = pre @ c # rest" "c \<notin> set rest" "r = c # rest"
        by blast
      have "pre \<noteq> []"
      proof
        assume "pre = []"
        with e(1) have "xs = rest" by simp
        with q(1) e(2) show False by simp
      qed
      then obtain p1 where p1: "pre = x # p1" "xs = p1 @ c # rest"
        using e(1) by (cases pre) auto
      from p1(2) e(2) e(3) have "strrchr xs c = Some r"
        using Cons.IH [of r] by blast
      with Some show "strrchr (x # xs) c = Some r" by simp
    qed
  qed
qed

lemma strcasecmp_zero_iff: "strcasecmp a b = 0 \<longleftrightarrow> map c_tolower a = map c_tolower b"
  by (induction a b rule: strcasecmp.induct) auto

text \<open>
  Claim C9.  For a demuxer whose resource path is the string \<open>path\<close>,
  \<open>demux_IsPathExtension\<close> answers true exactly when \<open>path\<close> contains a dot and the suffix
  that starts at its last dot equals the extension up to the case of ASCII letters; for a
  path without a dot the answer is false.  (A NULL path is undefined behaviour in the C
  code and is not covered.)
\<close>

theorem demux_IsPathExtension_last_dot:
  "demux_IsPathExtension (p_demux\<lparr>psz_path := Some path\<rparr>) psz_extension =
     Some (\<exists>pre rest. path = pre @ CHR ''.'' # rest \<and> CHR ''.'' \<notin> set rest \<and>
             map c_tolower (CHR ''.'' # rest) = map c_tolower psz_extension)
   \<and> (CHR ''.'' \<notin> set path \<longrightarrow>
        demux_IsPathExtension (p_demux\<lparr>psz_path := Some path\<rparr>) psz_extension = Some False)"
proof (cases "strrchr path (CHR ''.'')")
  case None
  then have notin: "CHR ''.'' \<notin> set path"
    by (simp add: strrchr_None_iff)
  then have "\<not> (\<exists>pre rest. path = pre @ CHR ''.'' # rest \<and> CHR ''.'' \<notin> set rest \<and>
             map c_tolower (CHR ''.'' # rest) = map c_tolower psz_extension)"
    by auto
  with None show ?thesis
    by (simp add: demux_IsPathExtension_def)
next
  case (Some psz_ext)
  then obtain pre rest where
    split: "path = pre @ CHR ''.'' # rest" "CHR ''.'' \<notin> set rest" "psz_ext = CHR ''.'' # rest"
    using strrchr_Some_iff [of path "CHR ''.''" psz_ext] by blast
  have unique: "pre' = pre \<and> rest' = rest"
    if "path = pre' @ CHR ''.'' # rest'" "CHR ''.'' \<notin> set rest'" for pre' rest'
  proof -
    from that have "strrchr path (CHR ''.'') = Some (CHR ''.'' # rest')"
      using strrchr_Some_iff [of path "CHR ''.''" "CHR ''.'' # rest'"] by blast
    with Some split(3) have "rest' = rest" by simp
    with that(1) split(1) show ?thesis by simp
  qed
  have "(\<exists>pre' rest'. path = pre' @ CHR ''.'' # rest' \<and> CHR ''.'' \<notin> set rest' \<and>
             map c_tolower (CHR ''.'' # rest') = map c_tolower psz_extension)
        \<longleftrightarrow> map c_tolower psz_ext = map c_tolower psz_extension"
    using split unique by blast
  moreover have "CHR ''.'' \<in> set path"
    using split(1) by simp
  ultimately show ?thesis
    using Some by (simp add: demux_IsPathExtension_def strcasecmp_zero_iff)
qed

theorem demux_IsPathExtension_last_dot_witness:
  "CHR ''.'' \<notin> set ''README'' \<and>
   demux_IsPathExtension
     \<lparr>psz_access = Some ''file'', psz_demux = None, psz_path = Some ''README'',
      stream = None, info = \<lparr>i_update = 0, i_title = 0, i_seekpoint = 0\<rparr>\<rparr> ''.avi'' = Some False"
proof -
  have no_dot: "CHR ''.'' \<notin> set ''README''"
    by simp
  have "demux_IsPathExtension
          (\<lparr>psz_access = Some ''file'', psz_demux = None, psz_path = None,
            stream = None, info = \<lparr>i_update = 0, i_title = 0, i_seekpoint = 0\<rparr>\<rparr>\<lparr>psz_path := Some ''README''\<rparr>)
          ''.avi'' = Some False"
    using demux_IsPathExtension_last_dot
      [where p_demux = "\<lparr>psz_access = Some ''file'', psz_demux = None, psz_path = None,
          stream = None, info = \<lparr>i_update = 0, i_title = 0, i_seekpoint = 0\<rparr>\<rparr>"
       and path = "''README''" and psz_extension = "''.avi''", THEN conjunct2] no_dot
    by blast
  with no_dot show ?thesis
    by simp
qed

text \<open>The helper on concrete paths: the comparison ignores case, and only the last dot counts.\<close>

lemma demux_IsPathExtension_examples:
  "demux_IsPathExtension
     \<lparr>psz_access = None, psz_demux = None, psz_path = Some ''a.tar.AVI'',
      stream = None, info = \<lparr>i_update = 0, i_title = 0, i_seekpoint = 0\<rparr>\<rparr> ''.avi'' = Some True"
  "demux_IsPathExtension
     \<lparr>psz_access = None, psz_demux = None, psz_path = Some ''a.avi.bak'',
      stream = None, info = \<lparr>i_update = 0, i_title = 0, i_seekpoint = 0\<rparr>\<rparr> ''.avi'' = Some False"
  by code_simp+

section \<open>The slider of the programme guide overlay\<close>












lemmas round_binary32_eval =
  round_binary32_def float_exponent_def pow2_def round_half_even_def bit_length.simps Let_def

text \<open>The rounding on a few numbers: exact below \<open>2 ^ 24\<close>, to a multiple of 128 near \<open>2 ^ 31\<close>.\<close>

lemma round_binary32_examples:
  "round_binary32 8 = 8"
  "round_binary32 (1 / 10) = 13421773 / 134217728"
  "round_binary32 16777217 = 16777216"
  "round_binary32 2147483583 = 2147483520"
  "round_binary32 2147483647 = 2147483648"
  by (simp_all add: round_binary32_eval)



text \<open>
  One line of a 12 by 7 slider filled up to column 5: the outline, the 3 pixel border, the
  filled part and the see-through rest.
\<close>

lemma slider_rows_example:
  "map_option (\<lambda>pic. map (\<lambda>i. p_pixels pic (12 * 3 + i)) [0, 1, 2, 3, 4, 5, 6, 7, 8, 9, 10, 11])
     (slider_rows \<lparr>p_pixels = (\<lambda>k. 0xAA), i_pitch = 12\<rparr> 12 7 5 0)
   = Some [3, 2, 2, 2, 2, 0, 0, 0, 0, 2, 2, 3]"
  by code_simp

section \<open>The peek macros\<close>

lemma stream_Peek_count:
  "snd (stream_Peek st i_size) < i_size \<longleftrightarrow> int (length (available st)) < i_size"
  by (auto simp: stream_Peek_def Let_def min_def)

text \<open>
  Claim C4, as amended.  With a stream attached, \<open>CHECK_PEEK\<close> makes the enclosing
  function return \<open>VLC_EGENERIC\<close> after the debug message "not enough data" exactly when
  the stream holds fewer bytes than asked for (\<open>CHECK_PEEK_GOTO\<close> jumps to the \<open>error\<close>
  label instead); otherwise it falls through with the bytes peeked.  So a later attempt on
  a stream that holds at least \<open>i_size\<close> bytes passes the check.
\<close>

theorem CHECK_PEEK_short_or_fallthrough:
  "CHECK_PEEK (p_demux\<lparr>stream := Some st\<rparr>) i_size =
     Some (if int (length (available st)) < i_size
           then ([msg_Dbg ''not enough data''], Return VLC_EGENERIC)
           else ([], Fallthrough (take (nat i_size) (available st)))) \<and>
   CHECK_PEEK_GOTO (p_demux\<lparr>stream := Some st\<rparr>) i_size =
     Some (if int (length (available st)) < i_size
           then ([msg_Dbg ''not enough data''], Goto_error)
           else ([], Fallthrough (take (nat i_size) (available st)))) \<and>
   (i_size \<le> int (length (available st')) \<longrightarrow>
      CHECK_PEEK (p_demux\<lparr>stream := Some st'\<rparr>) i_size =
        Some ([], Fallthrough (take (nat i_size) (available st'))))"
proof -
  have peek: "CHECK_PEEK (p_demux\<lparr>stream := Some t\<rparr>) i_size =
     Some (if int (length (available t)) < i_size
           then ([msg_Dbg ''not enough data''], Return VLC_EGENERIC)
           else ([], Fallthrough (take (nat i_size) (available t))))" for t
    using stream_Peek_count [of t i_size]
    by (simp add: CHECK_PEEK_def stream_Peek_def Let_def)
  have goto: "CHECK_PEEK_GOTO (p_demux\<lparr>stream := Some st\<rparr>) i_size =
     Some (if int (length (available st)) < i_size
           then ([msg_Dbg ''not enough data''], Goto_error)
           else ([], Fallthrough (take (nat i_size) (available st))))"
    using stream_Peek_count [of st i_size]
    by (simp add: CHECK_PEEK_GOTO_def stream_Peek_def Let_def)
  show ?thesis
    using peek [of st] peek [of st'] goto by simp
qed


theorem CHECK_PEEK_short_or_fallthrough_witness:
  "(8 :: int) \<le> int (length (available \<lparr>available = [1, 2, 3, 4, 5, 6, 7, 8, 9, 10]\<rparr>)) \<and>
   CHECK_PEEK
     \<lparr>psz_access = Some ''file'', psz_demux = None, psz_path = Some ''a.bin'',
      stream = Some \<lparr>available = [1, 2, 3]\<rparr>,
      info = \<lparr>i_update = 0, i_title = 0, i_seekpoint = 0\<rparr>\<rparr> 8
     = Some ([msg_Dbg ''not enough data''], Return VLC_EGENERIC) \<and>
   CHECK_PEEK
     \<lparr>psz_access = Some ''file'', psz_demux = None, psz_path = Some ''a.bin'',
      stream = Some \<lparr>available = [1, 2, 3, 4, 5, 6, 7, 8, 9, 10]\<rparr>,
      info = \<lparr>i_update = 0, i_title = 0, i_seekpoint = 0\<rparr>\<rparr> 8
     = Some ([], Fallthrough [1, 2, 3, 4, 5, 6, 7, 8])"
  using CHECK_PEEK_short_or_fallthrough
    [where p_demux = "\<lparr>psz_access = Some ''file'', psz_demux = None, psz_path = Some ''a.bin'',
        stream = None, info = \<lparr>i_update = 0, i_title = 0, i_seekpoint = 0\<rparr>\<rparr>"
       and st = "\<lparr>available = [1, 2, 3]\<rparr>"
       and st' = "\<lparr>available = [1, 2, 3, 4, 5, 6, 7, 8, 9, 10]\<rparr>"
       and i_size = 8]
  by simp

text \<open>
  Claim C4, as stated, fails.  With 3 bytes available of the 8 asked for, the function
  returns \<open>VLC_EGENERIC\<close>, the very status it returns when no packetizer can be loaded: the
  result is not distinct from that of a failure.
\<close>

theorem CHECK_PEEK_short_not_distinct:
  "CHECK_PEEK
     \<lparr>psz_access = Some ''file'', psz_demux = None, psz_path = Some ''a.bin'',
      stream = Some \<lparr>available = [1, 2, 3]\<rparr>,
      info = \<lparr>i_update = 0, i_title = 0, i_seekpoint = 0\<rparr>\<rparr> 8
     = Some ([msg_Dbg ''not enough data''], Return VLC_EGENERIC) \<and>
   \<not> (map_option (returned \<circ> snd)
         (CHECK_PEEK
            \<lparr>psz_access = Some ''file'', psz_demux = None, psz_path = Some ''a.bin'',
             stream = Some \<lparr>available = [1, 2, 3]\<rparr>,
             info = \<lparr>i_update = 0, i_title = 0, i_seekpoint = 0\<rparr>\<rparr> 8)
       \<noteq> Some (returned (snd (LOAD_PACKETIZER_OR_FAIL (None :: unit option) ''mpeg audio''))))"
  by (simp add: CHECK_PEEK_def stream_Peek_def LOAD_PACKETIZER_OR_FAIL_def)

section \<open>The snapshot of the programme guide\<close>

text \<open>
  The call is run symbolically, once for each shape of the table: no table, and a table
  with or without a current event and with or without a name.
\<close>

lemmas OSDEpg_exec =
  vout_OSDEpg_def OSDEpg_table_def OSDEpg_current_def emit_def load_def store_def
  dispose_def alloc_def vlc_epg_New_def vlc_epg_event_Duplicate_def vlc_epg_AddEvent_def
  vlc_epg_SetCurrent_def vlc_epg_Delete_def vlc_epg_event_Delete_def strdup_def
  input_item_GetMeta_def subpicture_New_def Let_def

lemmas OSDEpg_spec =
  OSDEpg_post_def snapshot_def trace_post_def before_unlock_def after_unlock_def
  table_of_def current_of_def name_of_def guide_kept_def OSDEpg_succeeds_def
  event_copied_def name_expected_def

lemma OSDEpg_no_table:
  assumes "p_epg_table input = None"
  shows "\<exists>res. vout_OSDEpg env input w = Some res \<and> OSDEpg_post env w input res"
  using assms by (simp add: OSDEpg_exec OSDEpg_spec)

lemma OSDEpg_bare_table:
  assumes "p_epg_table input = Some tbl" "tbl < brk w" "heap w tbl = Epg t"
    "epg_p_current t = None" "epg_psz_name t = None"
  shows "\<exists>res. vout_OSDEpg env input w = Some res \<and> OSDEpg_post env w input res"
  using assms by (simp add: OSDEpg_exec OSDEpg_spec split: option.splits)


lemma OSDEpg_named_table:
  assumes "p_epg_table input = Some tbl" "tbl < brk w" "heap w tbl = Epg t"
    "epg_p_current t = None" "epg_psz_name t = Some n" "n < brk w" "heap w n = Str s"
  shows "\<exists>res. vout_OSDEpg env input w = Some res \<and> OSDEpg_post env w input res"
  using assms by (simp add: OSDEpg_exec OSDEpg_spec split: option.splits)

lemma OSDEpg_current_table:
  assumes "p_epg_table input = Some tbl" "tbl < brk w" "heap w tbl = Epg t"
    "epg_p_current t = Some c" "c < brk w" "heap w c = Event e" "epg_psz_name t = None"
  shows "\<exists>res. vout_OSDEpg env input w = Some res \<and> OSDEpg_post env w input res"
  using assms by (simp add: OSDEpg_exec OSDEpg_spec split: option.splits)

lemma OSDEpg_full_table:
  assumes "p_epg_table input = Some tbl" "tbl < brk w" "heap w tbl = Epg t"
    "epg_p_current t = Some c" "c < brk w" "heap w c = Event e"
    "epg_psz_name t = Some n" "n < brk w" "heap w n = Str s"
  shows "\<exists>res. vout_OSDEpg env input w = Some res \<and> OSDEpg_post env w input res"
  using assms by (simp add: OSDEpg_exec OSDEpg_spec split: option.splits)


text \<open>
  What the postcondition demands.  A call that records nothing does not meet it, nor does
  a success whose guide lacks the duplicate.  And when it is met, the table has a current
  event that starts at a time not negative, and every allocation succeeds, then the
  subpicture's guide has as current event a new object equal to the table's.
\<close>

lemma OSDEpg_post_needs_trace: "\<not> OSDEpg_post env w input ((st, subpic), w)"
  by (simp add: OSDEpg_post_def trace_post_def)

lemma OSDEpg_post_copy:
  assumes post: "OSDEpg_post env w input ((st, subpic), w')"
    and cur: "current_of w input = Some (c, e)" "0 \<le> event_i_start e"
    and ok: "epg_New_ok env" "event_Duplicate_ok env" "epg_AddEvent_ok env"
      "malloc_ok env" "subpicture_New_ok env"
  shows "st = VLC_SUCCESS \<and>
    (\<exists>sp g d. subpic = Some sp \<and> heap w' (sys_epg (updater_p_sys sp)) = Epg g \<and>
       epg_pp_event g = [d] \<and> epg_p_current g = Some d \<and> brk w \<le> d \<and>
       heap w' d = Event e \<and> heap w c = Event e)"
proof -
  from cur(1) obtain t where t: "table_of w input = Some t"
    by (auto simp: current_of_def split: option.splits)
  from cur(1) have src: "heap w c = Event e"
    by (auto simp: current_of_def split: option.splits obj.splits)
  have succ: "OSDEpg_succeeds env w input"
    using t ok by (simp add: OSDEpg_succeeds_def guide_kept_def)
  have copied: "event_copied env w input = Some e"
    using cur(1) ok(2) by (simp add: event_copied_def)
  from post succ obtain sp where sp: "st = VLC_SUCCESS" "subpic = Some sp"
      "snapshot env w input w' sp"
    by (auto simp: OSDEpg_post_def split: option.splits)
  from sp(3) t copied cur(2) obtain g d where
    "heap w' (sys_epg (updater_p_sys sp)) = Epg g" "epg_pp_event g = [d]"
    "epg_p_current g = Some d" "brk w \<le> d" "heap w' d = Event e"
    by (auto simp: snapshot_def Let_def split: obj.splits list.splits)
  with sp src show ?thesis by blast
qed

text \<open>
  Claim C8.  On a well-formed input item \<open>vout_OSDEpg\<close> always returns.  Its trace begins
  with \<open>Lock\<close>; the item's fields and every object that existed before the call are touched
  only between \<open>Lock\<close> and \<open>Unlock\<close>, the read of the table's current event by
  \<open>vlc_epg_event_Duplicate\<close> among them; \<open>subpicture_New\<close> and \<open>vout_PutSubpicture\<close> come
  after \<open>Unlock\<close>.  The old objects are left as they were.  The call succeeds exactly when
  there is a table and the allocations allow it, and then the subpicture carries a guide
  made of new objects only, holding the duplicate of the table's current event whenever
  that duplicate could be made.
\<close>

theorem vout_OSDEpg_copies_under_lock:
  assumes "wf_item w input"
  shows "\<exists>res. vout_OSDEpg env input w = Some res \<and> OSDEpg_post env w input res"
proof (cases "p_epg_table input")
  case None
  then show ?thesis by (rule OSDEpg_no_table)
next
  case (Some tbl)
  with assms obtain t where
    tbl: "tbl < brk w" "heap w tbl = Epg t" and
    cur: "case epg_p_current t of None \<Rightarrow> True | Some c \<Rightarrow> is_Event w c" and
    name: "case epg_psz_name t of None \<Rightarrow> True | Some n \<Rightarrow> is_Str w n"
    by (auto simp: wf_item_def split: obj.splits)
  show ?thesis
  proof (cases "epg_p_current t")
    case no_cur: None
    show ?thesis
    proof (cases "epg_psz_name t")
      case None
      from Some tbl no_cur None show ?thesis by (rule OSDEpg_bare_table)
    next
      case has_name: (Some n)
      with name obtain s where "n < brk w" "heap w n = Str s"
        by (auto simp: is_Str_def split: obj.splits)
      with Some tbl no_cur has_name show ?thesis by (rule OSDEpg_named_table)
    qed
  next
    case has_cur: (Some c)
    with cur obtain e where c: "c < brk w" "heap w c = Event e"
      by (auto simp: is_Event_def split: obj.splits)
    show ?thesis
    proof (cases "epg_psz_name t")
      case None
      from Some tbl has_cur c None show ?thesis by (rule OSDEpg_current_table)
    next
      case has_name: (Some n)
      with name obtain s where "n < brk w" "heap w n = Str s"
        by (auto simp: is_Str_def split: obj.splits)
      with Some tbl has_cur c has_name show ?thesis by (rule OSDEpg_full_table)
    qed
  qed
qed


theorem vout_OSDEpg_copies_under_lock_witness:
  "wf_item
     \<lparr>heap = (\<lambda>a. Freed)
        (0 := Str ''Channel 5'',
         1 := Event \<lparr>event_i_start = 1000, event_i_duration = 3600,
                     event_psz_name = Some ''News''\<rparr>,
         2 := Epg \<lparr>epg_psz_name = Some 0, epg_i_id = 7, epg_i_source_id = 1,
                   epg_pp_event = [1], epg_p_current = Some 1\<rparr>),
      brk = 3, trace = []\<rparr>
     \<lparr>p_epg_table = Some 2, i_epg_time = 1234\<rparr> \<and>
   (\<exists>res.
      vout_OSDEpg
        \<lparr>epg_New_ok = True, event_Duplicate_ok = True, epg_AddEvent_ok = True,
         strdup_ok = True, meta_Title = Some ''Title'', malloc_ok = True,
         subpicture_New_ok = True, mdate = 5\<rparr>
        \<lparr>p_epg_table = Some 2, i_epg_time = 1234\<rparr>
        \<lparr>heap = (\<lambda>a. Freed)
           (0 := Str ''Channel 5'',
            1 := Event \<lparr>event_i_start = 1000, event_i_duration = 3600,
                        event_psz_name = Some ''News''\<rparr>,
            2 := Epg \<lparr>epg_psz_name = Some 0, epg_i_id = 7, epg_i_source_id = 1,
                      epg_pp_event = [1], epg_p_current = Some 1\<rparr>),
         brk = 3, trace = []\<rparr> = Some res \<and>
      fst (fst res) = VLC_SUCCESS \<and>
      trace (snd res) =
        [Lock, Read_item, Access 2, Access 1, Access 3, Access 3, Access 4, Access 3,
         Access 3, Access 4, Access 3, Access 0, Access 3, Access 3, Read_item, Unlock,
         Access 3, Subpicture_New, Put_subpicture] \<and>
      OSDEpg_post
        \<lparr>epg_New_ok = True, event_Duplicate_ok = True, epg_AddEvent_ok = True,
         strdup_ok = True, meta_Title = Some ''Title'', malloc_ok = True,
         subpicture_New_ok = True, mdate = 5\<rparr>
        \<lparr>heap = (\<lambda>a. Freed)
           (0 := Str ''Channel 5'',
            1 := Event \<lparr>event_i_start = 1000, event_i_duration = 3600,
                        event_psz_name = Some ''News''\<rparr>,
            2 := Epg \<lparr>epg_psz_name = Some 0, epg_i_id = 7, epg_i_source_id = 1,
                      epg_pp_event = [1], epg_p_current = Some 1\<rparr>),
         brk = 3, trace = []\<rparr>
        \<lparr>p_epg_table = Some 2, i_epg_time = 1234\<rparr> res)"
proof -
  let ?w = "\<lparr>heap = (\<lambda>a. Freed)
        (0 := Str ''Channel 5'',
         1 := Event \<lparr>event_i_start = 1000, event_i_duration = 3600,
                     event_psz_name = Some ''News''\<rparr>,
         2 := Epg \<lparr>epg_psz_name = Some 0, epg_i_id = 7, epg_i_source_id = 1,
                   epg_pp_event = [1], epg_p_current = Some 1\<rparr>),
      brk = 3, trace = []\<rparr>"
  let ?input = "\<lparr>p_epg_table = Some 2, i_epg_time = 1234\<rparr>"
  let ?env = "\<lparr>epg_New_ok = True, event_Duplicate_ok = True, epg_AddEvent_ok = True,
         strdup_ok = True, meta_Title = Some ''Title'', malloc_ok = True,
         subpicture_New_ok = True, mdate = 5\<rparr>"
  have wf: "wf_item ?w ?input"
    by (simp add: wf_item_def is_Event_def is_Str_def)
  from vout_OSDEpg_copies_under_lock [OF wf, of ?env]
  obtain res where res: "vout_OSDEpg ?env ?input ?w = Some res" "OSDEpg_post ?env ?w ?input res"
    by blast
  have run: "\<exists>w'. vout_OSDEpg ?env ?input ?w = Some w' \<and> fst (fst w') = VLC_SUCCESS \<and>
      trace (snd w') =
        [Lock, Read_item, Access 2, Access 1, Access 3, Access 3, Access 4, Access 3,
         Access 3, Access 4, Access 3, Access 0, Access 3, Access 3, Read_item, Unlock,
         Access 3, Subpicture_New, Put_subpicture]"
    by (simp add: vout_OSDEpg_def OSDEpg_table_def OSDEpg_current_def emit_def load_def
        store_def dispose_def alloc_def vlc_epg_New_def vlc_epg_event_Duplicate_def
        vlc_epg_AddEvent_def vlc_epg_SetCurrent_def strdup_def subpicture_New_def Let_def)
  with res wf show ?thesis
    by auto
qed

text \<open>
  The discipline is not empty: a trace that reads the table's current event after
  \<open>Unlock\<close>, or that builds the subpicture with the lock held, is refused.
\<close>

lemma well_locked_refuses:
  "\<not> well_locked 3 False [Lock, Read_item, Access 2, Unlock, Access 1]"
  "\<not> well_locked 3 False [Lock, Read_item, Access 2, Subpicture_New, Unlock]"
  "well_locked 3 False [Lock, Read_item, Access 2, Access 1, Unlock, Access 3, Subpicture_New]"
  by simp_all

section \<open>The title queries\<close>

lemma few_titles_iff:
  "length ts \<le> 1 \<and> list_all (\<lambda>n. n \<le> 1) ts \<longleftrightarrow> length ts \<le> 1 \<and> sum_list ts \<le> (1 :: nat)"
proof (cases ts)
  case Nil
  then show ?thesis by simp
next
  case (Cons n ns)
  then show ?thesis by (cases ns) auto
qed

text \<open>
  Claim C1.  \<open>Get title info\<close> fails exactly when the content has at most one title and at
  most one seekpoint in all; when there is more than one title or more than one seekpoint
  it succeeds and hands out at least one title.
\<close>

theorem get_title_info_fails_iff:
  "(fst (fst (control_title d DEMUX_GET_TITLE_INFO)) = VLC_EGENERIC
      \<longleftrightarrow> length (titles d) \<le> 1 \<and> sum_list (titles d) \<le> 1) \<and>
   (1 < length (titles d) \<or> 1 < sum_list (titles d) \<longrightarrow>
      (\<exists>ts. fst (control_title d DEMUX_GET_TITLE_INFO) = (VLC_SUCCESS, Some ts) \<and>
            1 \<le> length ts \<and> ts = titles d))"
proof -
  have many: "1 \<le> length (titles d)" if "1 < length (titles d) \<or> 1 < sum_list (titles d)"
    using that by (cases "titles d") auto
  show ?thesis
    using few_titles_iff [of "titles d"] many
    by (auto simp: control_title_def)
qed

theorem get_title_info_fails_iff_witness:
  "(1 < length (titles \<lparr>demux = \<lparr>psz_access = None, psz_demux = None, psz_path = None,
        stream = None, info = \<lparr>i_update = 0, i_title = 0, i_seekpoint = 0\<rparr>\<rparr>,
        titles = [5], last_info = None\<rparr>) \<or>
    1 < sum_list (titles \<lparr>demux = \<lparr>psz_access = None, psz_demux = None, psz_path = None,
        stream = None, info = \<lparr>i_update = 0, i_title = 0, i_seekpoint = 0\<rparr>\<rparr>,
        titles = [5], last_info = None\<rparr>)) \<and>
   fst (control_title \<lparr>demux = \<lparr>psz_access = None, psz_demux = None, psz_path = None,
        stream = None, info = \<lparr>i_update = 0, i_title = 0, i_seekpoint = 0\<rparr>\<rparr>,
        titles = [5], last_info = None\<rparr> DEMUX_GET_TITLE_INFO) = (VLC_SUCCESS, Some [5])"
  using get_title_info_fails_iff
    [of "\<lparr>demux = \<lparr>psz_access = None, psz_demux = None, psz_path = None,
        stream = None, info = \<lparr>i_update = 0, i_title = 0, i_seekpoint = 0\<rparr>\<rparr>,
        titles = [5], last_info = None\<rparr>"]
  by simp


text \<open>
  Claim C2.  Let \<open>ts\<close> be the answer of the last successful \<open>Get title info\<close>.  \<open>Set title\<close>
  with an index outside \<open>[0, length ts)\<close>, and \<open>Set seekpoint\<close> with an index outside
  \<open>[0, n)\<close> where \<open>n\<close> is the seekpoint count of the current title in \<open>ts\<close>, fail and return
  the demuxer as it was, navigation state included; the same call made again fails again
  and still changes nothing.
\<close>

theorem set_out_of_range_fails:
  assumes "last_info d = Some ts"
  shows
    "(\<not> (0 \<le> i \<and> i < int (length ts)) \<longrightarrow>
        control_title d (DEMUX_SET_TITLE i) = ((VLC_EGENERIC, None), d) \<and>
        control_title (snd (control_title d (DEMUX_SET_TITLE i))) (DEMUX_SET_TITLE i)
          = ((VLC_EGENERIC, None), d)) \<and>
     (0 \<le> i_title (info (demux d)) \<and> i_title (info (demux d)) < int (length ts) \<and>
      \<not> (0 \<le> j \<and> j < int (ts ! nat (i_title (info (demux d))))) \<longrightarrow>
        control_title d (DEMUX_SET_SEEKPOINT j) = ((VLC_EGENERIC, None), d) \<and>
        control_title (snd (control_title d (DEMUX_SET_SEEKPOINT j))) (DEMUX_SET_SEEKPOINT j)
          = ((VLC_EGENERIC, None), d))"
proof (intro conjI impI)
  assume out: "\<not> (0 \<le> i \<and> i < int (length ts))"
  with assms show first: "control_title d (DEMUX_SET_TITLE i) = ((VLC_EGENERIC, None), d)"
    by (simp add: control_title_def)
  then show "control_title (snd (control_title d (DEMUX_SET_TITLE i))) (DEMUX_SET_TITLE i)
          = ((VLC_EGENERIC, None), d)"
    by simp
next
  assume out: "0 \<le> i_title (info (demux d)) \<and> i_title (info (demux d)) < int (length ts) \<and>
      \<not> (0 \<le> j \<and> j < int (ts ! nat (i_title (info (demux d)))))"
  with assms show first: "control_title d (DEMUX_SET_SEEKPOINT j) = ((VLC_EGENERIC, None), d)"
    by (simp add: control_title_def Let_def)
  then show "control_title (snd (control_title d (DEMUX_SET_SEEKPOINT j))) (DEMUX_SET_SEEKPOINT j)
          = ((VLC_EGENERIC, None), d)"
    by simp
qed

text \<open>
  The scenario of the claim: the title info reports one title with 3 seekpoints, and
  \<open>Set seekpoint(5)\<close> is called twice.
\<close>

theorem set_out_of_range_fails_witness:
  "last_info (snd (control_title
      \<lparr>demux = \<lparr>psz_access = None, psz_demux = None, psz_path = None, stream = None,
                info = \<lparr>i_update = 0, i_title = 0, i_seekpoint = 1\<rparr>\<rparr>,
       titles = [3], last_info = None\<rparr> DEMUX_GET_TITLE_INFO)) = Some [3] \<and>
   control_title
     \<lparr>demux = \<lparr>psz_access = None, psz_demux = None, psz_path = None, stream = None,
               info = \<lparr>i_update = 0, i_title = 0, i_seekpoint = 1\<rparr>\<rparr>,
      titles = [3], last_info = Some [3]\<rparr> (DEMUX_SET_SEEKPOINT 5)
     = ((VLC_EGENERIC, None),
        \<lparr>demux = \<lparr>psz_access = None, psz_demux = None, psz_path = None, stream = None,
                  info = \<lparr>i_update = 0, i_title = 0, i_seekpoint = 1\<rparr>\<rparr>,
         titles = [3], last_info = Some [3]\<rparr>) \<and>
   control_title
     (snd (control_title
        \<lparr>demux = \<lparr>psz_access = None, psz_demux = None, psz_path = None, stream = None,
                  info = \<lparr>i_update = 0, i_title = 0, i_seekpoint = 1\<rparr>\<rparr>,
         titles = [3], last_info = Some [3]\<rparr> (DEMUX_SET_SEEKPOINT 5)))
     (DEMUX_SET_SEEKPOINT 5)
     = ((VLC_EGENERIC, None),
        \<lparr>demux = \<lparr>psz_access = None, psz_demux = None, psz_path = None, stream = None,
                  info = \<lparr>i_update = 0, i_title = 0, i_seekpoint = 1\<rparr>\<rparr>,
         titles = [3], last_info = Some [3]\<rparr>) \<and>
   control_title
     \<lparr>demux = \<lparr>psz_access = None, psz_demux = None, psz_path = None, stream = None,
               info = \<lparr>i_update = 0, i_title = 0, i_seekpoint = 1\<rparr>\<rparr>,
      titles = [3], last_info = Some [3]\<rparr> (DEMUX_SET_TITLE (- 1))
     = ((VLC_EGENERIC, None),
        \<lparr>demux = \<lparr>psz_access = None, psz_demux = None, psz_path = None, stream = None,
                  info = \<lparr>i_update = 0, i_title = 0, i_seekpoint = 1\<rparr>\<rparr>,
         titles = [3], last_info = Some [3]\<rparr>)"
proof -
  let ?d = "\<lparr>demux = \<lparr>psz_access = None, psz_demux = None, psz_path = None, stream = None,
               info = \<lparr>i_update = 0, i_title = 0, i_seekpoint = 1\<rparr>\<rparr>,
      titles = [3], last_info = Some [3]\<rparr>"
  have info: "last_info ?d = Some [3]"
    by simp
  have asked: "last_info (snd (control_title (?d\<lparr>last_info := None\<rparr>) DEMUX_GET_TITLE_INFO))
      = Some [3]"
    by (simp add: control_title_def)
  from set_out_of_range_fails [OF info, of "- 1" 5] asked show ?thesis
    by simp
qed

end
